theory Spec2Isabelle
  imports Main "HOL-Library.AList"
begin

section \<open>Common notions\<close>

text \<open>
  A Go \<open>error\<close> value is modelled by its message; the nil error is \<open>None\<close> of
  \<open>error option\<close>, and a call returning \<open>(value, error)\<close> of which exactly one is
  meaningful is a sum \<open>error + value\<close>.  A run-time panic (nil pointer dereference,
  assignment to an entry of a nil map) is the outcome \<open>Panic\<close>.
\<close>

type_synonym error = string

datatype 'a outcome = Panic | Return 'a

text \<open>
  What a function does besides returning is recorded as a trace of events, oldest first:
  the lines it writes with logrus (level and format string; the arguments of the format
  are not recorded) and the calls it issues to the Datadog client.
\<close>

datatype level = LInfo | LWarn | LError

subsection \<open>The types of the Datadog client library\<close>

text \<open>
  \<open>datadog.Monitor\<close>, \<open>datadog.Options\<close> and \<open>datadog.ThresholdCount\<close> belong to the
  library \<open>go-datadog-api\<close>.  Only the fields the repository reads or writes are kept.
  A pointer field is an \<open>option\<close> (\<open>None\<close> is nil).  A \<open>[]string\<close> that takes part in
  \<open>reflect.DeepEqual\<close> is a \<open>string list option\<close>: \<open>None\<close> is the nil slice, which
  \<open>DeepEqual\<close> tells apart from the empty slice \<open>Some []\<close>.  A threshold is the
  library's optional JSON number, a decimal string.
\<close>

type_synonym json_Number = string

record ThresholdCount =
  th_Ok :: "json_Number option"
  th_Critical :: "json_Number option"
  th_Warning :: "json_Number option"
  th_Unknown :: "json_Number option"
  th_CriticalRecovery :: "json_Number option"
  th_WarningRecovery :: "json_Number option"

record Options =
  opt_NoDataTimeframe :: int
  opt_NotifyAudit :: "bool option"
  opt_NotifyNoData :: "bool option"
  opt_RenotifyInterval :: "int option"
  opt_NewHostDelay :: "int option"
  opt_EvaluationDelay :: "int option"
  opt_TimeoutH :: "int option"
  opt_EscalationMessage :: "string option"
  opt_Thresholds :: "ThresholdCount option"
  opt_RequireFullWindow :: "bool option"
  opt_Locked :: "bool option"

record dd_Monitor =
  dd_Id :: "int option"
  dd_Type :: "string option"
  dd_Query :: "string option"
  dd_Name :: "string option"
  dd_Message :: "string option"
  dd_Tags :: "string list option"
  dd_Options :: "Options option"

text \<open>
  Go's \<open>append(s, x)\<close> on a slice: the result is never nil.  When the capacity of \<open>s\<close>
  exceeds its length the new element is written into the shared backing array, but
  beyond the length of every slice header that existed before, so no earlier slice
  value shows it.
\<close>

definition append_slice :: "'a list option \<Rightarrow> 'a \<Rightarrow> 'a list option" where
  "append_slice s x = (case s of None \<Rightarrow> Some [x] | Some xs \<Rightarrow> Some (xs @ [x]))"

datatype client_call =
    Client_GetMonitorsByTags "string list"
  | Client_CreateMonitor dd_Monitor
  | Client_UpdateMonitor dd_Monitor
  | Client_DeleteMonitor int

datatype event = Log level string | Call client_call

fun is_client_call :: "event \<Rightarrow> bool" where
  "is_client_call (Call c) = True"
| "is_client_call (Log l s) = False"

section \<open>pkg/config/config.go\<close>

text \<open>
  Slices that are only ranged over and appended to are lists (nil is \<open>[]\<close>).  A
  \<open>map[string]string\<close> that is only read is a map (a nil map reads as empty).  The
  cluster variables are written to, so there the nil map \<open>None\<close> is kept apart from an
  allocated one; its entries are an association list, whose order stands for the order in
  which \<open>range\<close> happens to visit them.
\<close>

record Annotation =
  a_Name :: string
  a_Value :: string

record MonitorSet =
  ObjectType :: string
  Annotations :: "Annotation list"
  BoundObjects :: "string list"
  Monitors :: "dd_Monitor list"

record ruleset =
  ClusterVariables :: "(string \<times> string) list option"
  MonitorSets :: "MonitorSet list"

record Config =
  DatadogAPIKey :: string
  DatadogAppKey :: string
  ClusterName :: string
  OwnerTag :: string
  MonitorDefinitionsPath :: "string list"
  Rulesets :: "ruleset option"
  DryRun :: bool

subsection \<open>The matcher\<close>

text \<open>
  The inner loop of \<open>getMatchingRulesets\<close>: the flag \<open>hasAllAnnotations\<close> starts
  \<open>False\<close>, is set by every annotation that is found with an equal value, and the first
  annotation that is missing or differs clears it, logs and leaves the loop.  The
  result is the flag and the lines logged.
\<close>

fun hasAllAnnotations_loop ::
  "(string \<rightharpoonup> string) \<Rightarrow> Annotation list \<Rightarrow> bool \<Rightarrow> bool \<times> event list" where
  "hasAllAnnotations_loop annotations [] hasAllAnnotations = (hasAllAnnotations, [])"
| "hasAllAnnotations_loop annotations (annotation # rest) hasAllAnnotations =
     (case annotations (a_Name annotation) of
        Some val \<Rightarrow>
          if val = a_Value annotation
          then hasAllAnnotations_loop annotations rest True
          else (False,
            [Log LInfo ''Annotation %s with value %s does not exist, so monitor %d does not match''])
      | None \<Rightarrow> (False,
            [Log LInfo ''Annotation %s with value %s does not exist, so monitor %d does not match'']))"

text \<open>The outer loop, with the slice \<open>validMSets\<close> and the trace as accumulators.\<close>

fun getMatchingRulesets_loop ::
  "(string \<rightharpoonup> string) \<Rightarrow> string \<Rightarrow> MonitorSet list \<Rightarrow> MonitorSet list \<Rightarrow> event list
     \<Rightarrow> MonitorSet list \<times> event list" where
  "getMatchingRulesets_loop annotations objectType [] validMSets tr = (validMSets, tr)"
| "getMatchingRulesets_loop annotations objectType (monitorSet # rest) validMSets tr =
     (if ObjectType monitorSet = objectType
      then (case hasAllAnnotations_loop annotations (Annotations monitorSet) False of
              (hasAllAnnotations, lg) \<Rightarrow>
                if hasAllAnnotations
                then getMatchingRulesets_loop annotations objectType rest
                       (validMSets @ [monitorSet]) (tr @ lg)
                else getMatchingRulesets_loop annotations objectType rest validMSets (tr @ lg))
      else getMatchingRulesets_loop annotations objectType rest validMSets tr)"

text \<open>
  \<open>config.Rulesets\<close> is a pointer, nil until the first \<open>reloadRulesets\<close> has
  returned; dereferencing it then panics.
\<close>

definition getMatchingRulesets ::
  "Config \<Rightarrow> (string \<rightharpoonup> string) \<Rightarrow> string \<Rightarrow> event list \<times> MonitorSet list outcome" where
  "getMatchingRulesets config annotations objectType =
     (case Rulesets config of
        None \<Rightarrow> ([], Panic)
      | Some rs \<Rightarrow>
          (case getMatchingRulesets_loop annotations objectType (MonitorSets rs) [] [] of
             (validMSets, tr) \<Rightarrow> (tr, Return validMSets)))"

fun GetMatchingMonitors_loop :: "MonitorSet list \<Rightarrow> dd_Monitor list \<Rightarrow> dd_Monitor list" where
  "GetMatchingMonitors_loop [] validMonitors = validMonitors"
| "GetMatchingMonitors_loop (mSet # rest) validMonitors =
     GetMatchingMonitors_loop rest (validMonitors @ Monitors mSet)"

definition GetMatchingMonitors ::
  "Config \<Rightarrow> (string \<rightharpoonup> string) \<Rightarrow> string \<Rightarrow> event list \<times> dd_Monitor list outcome" where
  "GetMatchingMonitors config annotations objectType =
     (case getMatchingRulesets config annotations objectType of
        (tr, Panic) \<Rightarrow> (tr, Panic)
      | (tr, Return mSets) \<Rightarrow> (tr, Return (GetMatchingMonitors_loop mSets [])))"

text \<open>
  The matching rule in the words of the specification: the type is the given one and
  every required annotation is present on the object with exactly that value.
\<close>

definition spec_rule_matches :: "(string \<rightharpoonup> string) \<Rightarrow> string \<Rightarrow> MonitorSet \<Rightarrow> bool" where
  "spec_rule_matches annotations objectType r =
     (ObjectType r = objectType \<and>
      list_all (\<lambda>a. annotations (a_Name a) = Some (a_Value a)) (Annotations r))"

text \<open>What the code selects: the same, for rules that require at least one annotation.\<close>

definition rule_selected :: "(string \<rightharpoonup> string) \<Rightarrow> string \<Rightarrow> MonitorSet \<Rightarrow> bool" where
  "rule_selected annotations objectType r =
     (Annotations r \<noteq> [] \<and> spec_rule_matches annotations objectType r)"

subsection \<open>Monitors bound through the namespace\<close>

fun contains :: "string list \<Rightarrow> string \<Rightarrow> bool" where
  "contains [] key = False"
| "contains (element # rest) key = (if element = key then True else contains rest key)"

text \<open>
  \<open>AppendTag\<close> ranges over \<open>mSet.Monitors\<close> by value: in each round the loop variable
  \<open>monitor\<close> is a copy of the element, and the assignment to \<open>monitor.Tags\<close> changes
  that copy, which is dropped when the round ends.  The loop carries the elements of the
  slice (first argument), which no statement of the body writes, and the elements still
  to visit.
\<close>

fun AppendTag_loop :: "dd_Monitor list \<Rightarrow> dd_Monitor list \<Rightarrow> string \<Rightarrow> dd_Monitor list" where
  "AppendTag_loop elems [] tag = elems"
| "AppendTag_loop elems (monitor # rest) tag =
     (let monitor = monitor\<lparr>dd_Tags := append_slice (dd_Tags monitor) tag\<rparr>
      in AppendTag_loop elems rest tag)"

definition AppendTag :: "MonitorSet \<Rightarrow> string \<Rightarrow> MonitorSet" where
  "AppendTag mSet tag = mSet\<lparr>Monitors := AppendTag_loop (Monitors mSet) (Monitors mSet) tag\<rparr>"

text \<open>The second tagging loop, written out in \<open>GetBoundMonitors\<close>, has the same shape.\<close>

fun GetBoundMonitors_tag_loop :: "dd_Monitor list \<Rightarrow> dd_Monitor list \<Rightarrow> dd_Monitor list" where
  "GetBoundMonitors_tag_loop elems [] = elems"
| "GetBoundMonitors_tag_loop elems (m # rest) =
     (let m = m\<lparr>dd_Tags := append_slice (dd_Tags m) ''dd-manager:bound_object''\<rparr>
      in GetBoundMonitors_tag_loop elems rest)"

fun GetBoundMonitors_loop ::
  "MonitorSet list \<Rightarrow> string \<Rightarrow> dd_Monitor list \<Rightarrow> dd_Monitor list" where
  "GetBoundMonitors_loop [] objectType linkedMonitors = linkedMonitors"
| "GetBoundMonitors_loop (mSet # rest) objectType linkedMonitors =
     (if contains (BoundObjects mSet) objectType
      then (let mSet = AppendTag mSet ''dd-manager:bound_object'';
                mSet = mSet\<lparr>Monitors :=
                         GetBoundMonitors_tag_loop (Monitors mSet) (Monitors mSet)\<rparr>
            in GetBoundMonitors_loop rest objectType (linkedMonitors @ Monitors mSet))
      else GetBoundMonitors_loop rest objectType linkedMonitors)"

text \<open>
  The Kubernetes client (package \<open>kube\<close> and client-go) is outside the sources:
  \<open>Namespaces_Get\<close> is what \<open>Namespaces().Get\<close> answers for a namespace name, an
  error or the annotations of the namespace.
\<close>

definition GetBoundMonitors ::
  "(string \<Rightarrow> error + (string \<rightharpoonup> string)) \<Rightarrow> Config \<Rightarrow> string \<Rightarrow> string
     \<Rightarrow> event list \<times> dd_Monitor list outcome" where
  "GetBoundMonitors Namespaces_Get config namespace objectType =
     (case Namespaces_Get namespace of
        Inl err \<Rightarrow> ([Log LError ''Error getting namespace %s: %+v''], Return [])
      | Inr ns_Annotations \<Rightarrow>
          (case getMatchingRulesets config ns_Annotations ''binding'' of
             (tr, Panic) \<Rightarrow> (tr, Panic)
           | (tr, Return mSets) \<Rightarrow> (tr, Return (GetBoundMonitors_loop mSets objectType []))))"

definition has_tag :: "string \<Rightarrow> dd_Monitor \<Rightarrow> bool" where
  "has_tag tag m = (case dd_Tags m of None \<Rightarrow> False | Some ts \<Rightarrow> contains ts tag)"

subsection \<open>Reloading the rulesets\<close>

text \<open>
  What lies outside the process: the answers of \<open>http.Get\<close> (an error, or a response
  whose body \<open>ioutil.ReadAll\<close> reads or fails to read), of \<open>os.Stat\<close> (whether it
  succeeds), of \<open>ioutil.ReadFile\<close>, and of \<open>yaml.Unmarshal\<close> into a fresh
  \<open>ruleset\<close>.
\<close>

record sources =
  http_Get :: "string \<Rightarrow> error + (error + string)"
  os_Stat :: "string \<Rightarrow> bool"
  ioutil_ReadFile :: "string \<Rightarrow> error + string"
  yaml_Unmarshal :: "string \<Rightarrow> error + ruleset"

definition HasPrefix :: "string \<Rightarrow> string \<Rightarrow> bool" where
  "HasPrefix s p = (take (length p) s = p)"

definition loadFromPath :: "sources \<Rightarrow> string \<Rightarrow> error + string" where
  "loadFromPath io path =
     (if HasPrefix path ''http://'' \<or> HasPrefix path ''https://''
      then (case http_Get io path of
              Inl err \<Rightarrow> Inl err
            | Inr response \<Rightarrow> response)
      else if os_Stat io path
      then ioutil_ReadFile io path
      else Inl ''not a valid path or URL'')"

text \<open>
  \<open>for k, v := range rSet.ClusterVariables { rulesetCollection.ClusterVariables[k] = v }\<close>:
  an assignment to an entry of a nil map panics.
\<close>

fun ClusterVariables_loop ::
  "(string \<times> string) list \<Rightarrow> (string \<times> string) list option
     \<Rightarrow> (string \<times> string) list option outcome" where
  "ClusterVariables_loop [] collected = Return collected"
| "ClusterVariables_loop ((k, v) # rest) collected =
     (case collected of
        None \<Rightarrow> Panic
      | Some m \<Rightarrow> ClusterVariables_loop rest (Some (AList.update k v m)))"

definition entries :: "(string \<times> string) list option \<Rightarrow> (string \<times> string) list" where
  "entries m = (case m of None \<Rightarrow> [] | Some kvs \<Rightarrow> kvs)"

fun reloadRulesets_loop ::
  "sources \<Rightarrow> string list \<Rightarrow> ruleset \<Rightarrow> event list \<Rightarrow> event list \<times> ruleset outcome" where
  "reloadRulesets_loop io [] rulesetCollection tr = (tr, Return rulesetCollection)"
| "reloadRulesets_loop io (cfg # rest) rulesetCollection tr =
     (let tr = tr @ [Log LInfo ''Loading rulesets from %s''] in
      case loadFromPath io cfg of
        Inl err \<Rightarrow>
          reloadRulesets_loop io rest rulesetCollection
            (tr @ [Log LError ''Could not load config file %s: %v''])
      | Inr yml \<Rightarrow>
          (case yaml_Unmarshal io yml of
             Inl err \<Rightarrow>
               reloadRulesets_loop io rest rulesetCollection
                 (tr @ [Log LError ''Error unmarshalling config file %s: %v''])
           | Inr rSet \<Rightarrow>
               (let rulesetCollection = rulesetCollection
                      \<lparr>MonitorSets := MonitorSets rulesetCollection @ MonitorSets rSet\<rparr>
                in case ClusterVariables_loop (entries (ClusterVariables rSet))
                          (ClusterVariables rulesetCollection) of
                     Panic \<Rightarrow> (tr, Panic)
                   | Return collected \<Rightarrow>
                       reloadRulesets_loop io rest
                         (rulesetCollection\<lparr>ClusterVariables := collected\<rparr>) tr)))"

text \<open>
  \<open>reloadRulesets\<close> starts from \<open>&ruleset{}\<close>, whose map and slice are nil, and
  stores the collection in \<open>config.Rulesets\<close> after the loop.  It is called from
  \<open>GetInstance\<close> and from the ticker's goroutine, neither of which recovers: a panic
  ends the process.
\<close>

definition reloadRulesets :: "sources \<Rightarrow> Config \<Rightarrow> event list \<times> Config outcome" where
  "reloadRulesets io config =
     (case reloadRulesets_loop io (MonitorDefinitionsPath config)
             \<lparr>ClusterVariables = None, MonitorSets = []\<rparr> [] of
        (tr, Panic) \<Rightarrow> (tr, Panic)
      | (tr, Return rulesetCollection) \<Rightarrow>
          (tr, Return (config\<lparr>Rulesets := Some rulesetCollection\<rparr>)))"

text \<open>
  What one source contributes to a reload: its rules when it loads and parses, nothing
  otherwise; and whether it loads, parses and carries at least one cluster variable.
\<close>

definition loaded_rules :: "sources \<Rightarrow> string \<Rightarrow> MonitorSet list" where
  "loaded_rules io path =
     (case loadFromPath io path of
        Inl err \<Rightarrow> []
      | Inr yml \<Rightarrow> (case yaml_Unmarshal io yml of Inl err \<Rightarrow> [] | Inr rSet \<Rightarrow> MonitorSets rSet))"

definition defines_variables :: "sources \<Rightarrow> string \<Rightarrow> bool" where
  "defines_variables io path =
     (case loadFromPath io path of
        Inl err \<Rightarrow> False
      | Inr yml \<Rightarrow>
          (case yaml_Unmarshal io yml of
             Inl err \<Rightarrow> False
           | Inr rSet \<Rightarrow> entries (ClusterVariables rSet) \<noteq> []))"

section \<open>pkg/util/datadog.go\<close>

text \<open>
  \<open>conf.Monitor\<close> and \<open>conf.Thresholds\<close> are declared in package \<open>conf\<close>, which is
  not among the sources; their fields and the types of the fields are those that
  \<open>toDdMonitor\<close> and \<open>toMonitor\<close> read and write.  Go's \<open>int\<close> is an \<open>int\<close>: no
  arithmetic is done on these fields.  The \<open>conf.Config\<close> of this file is read for its
  owner tag and its keys only, and is the \<open>Config\<close> above.
\<close>

record conf_Thresholds =
  Ok :: "json_Number option"
  Critical :: "json_Number option"
  Warning :: "json_Number option"
  Unknown :: "json_Number option"
  CriticalRecovery :: "json_Number option"
  WarningRecovery :: "json_Number option"

record conf_Monitor =
  Name :: string
  Type :: string
  Query :: string
  Message :: string
  Tags :: "string list option"
  NoDataTimeframe :: int
  NotifyAudit :: bool
  NotifyNoData :: bool
  RenotifyInterval :: int
  NewHostDelay :: int
  EvaluationDelay :: int
  Timeout :: int
  EscalationMessage :: string
  Thresholds :: conf_Thresholds
  RequireFullWindow :: bool
  Locked :: bool

text \<open>
  The Datadog backend, seen through the client: what each of the four calls answers.
  Every function below lists at most once and writes at most once after listing, so the
  answers need no state.
\<close>

record client =
  GetMonitorsByTags_reply :: "string list \<Rightarrow> error + dd_Monitor list"
  CreateMonitor_reply :: "dd_Monitor \<Rightarrow> error + dd_Monitor"
  UpdateMonitor_reply :: "dd_Monitor \<Rightarrow> error option"
  DeleteMonitor_reply :: "int \<Rightarrow> error option"

definition toDdMonitor :: "conf_Monitor \<Rightarrow> dd_Monitor" where
  "toDdMonitor inM =
     \<lparr>dd_Id = None,
      dd_Type = Some (Type inM),
      dd_Query = Some (Query inM),
      dd_Name = Some (Name inM),
      dd_Message = Some (Message inM),
      dd_Tags = Tags inM,
      dd_Options = Some
        \<lparr>opt_NoDataTimeframe = NoDataTimeframe inM,
         opt_NotifyAudit = Some (NotifyAudit inM),
         opt_NotifyNoData = Some (NotifyNoData inM),
         opt_RenotifyInterval = Some (RenotifyInterval inM),
         opt_NewHostDelay = Some (NewHostDelay inM),
         opt_EvaluationDelay = Some (EvaluationDelay inM),
         opt_TimeoutH = Some (Timeout inM),
         opt_EscalationMessage = Some (EscalationMessage inM),
         opt_Thresholds = Some
           \<lparr>th_Ok = Ok (Thresholds inM),
            th_Critical = Critical (Thresholds inM),
            th_Warning = Warning (Thresholds inM),
            th_Unknown = Unknown (Thresholds inM),
            th_CriticalRecovery = CriticalRecovery (Thresholds inM),
            th_WarningRecovery = WarningRecovery (Thresholds inM)\<rparr>,
         opt_RequireFullWindow = Some (RequireFullWindow inM),
         opt_Locked = Some (Locked inM)\<rparr>\<rparr>"

text \<open>Reading through a pointer: a nil pointer panics.\<close>

definition deref :: "'a option \<Rightarrow> ('a \<Rightarrow> 'b outcome) \<Rightarrow> 'b outcome" where
  "deref p k = (case p of None \<Rightarrow> Panic | Some v \<Rightarrow> k v)"

text \<open>
  \<open>toMonitor\<close> reads through \<open>in.Options\<close>, \<open>in.Options.Thresholds\<close> and the pointer
  fields in the order of the source.  It sets no \<open>Locked\<close>, which so keeps the zero
  value \<open>false\<close>.
\<close>

definition toMonitor :: "dd_Monitor \<Rightarrow> conf_Monitor outcome" where
  "toMonitor inM =
     deref (dd_Options inM) (\<lambda>options.
     deref (opt_Thresholds options) (\<lambda>th.
     let thresholds =
       \<lparr>Ok = th_Ok th,
        Critical = th_Critical th,
        Warning = th_Warning th,
        Unknown = th_Unknown th,
        CriticalRecovery = th_CriticalRecovery th,
        WarningRecovery = th_WarningRecovery th\<rparr>
     in
     deref (dd_Name inM) (\<lambda>name.
     deref (dd_Type inM) (\<lambda>type.
     deref (dd_Query inM) (\<lambda>query.
     deref (dd_Message inM) (\<lambda>message.
     deref (opt_NotifyAudit options) (\<lambda>notifyAudit.
     deref (opt_NotifyNoData options) (\<lambda>notifyNoData.
     deref (opt_RenotifyInterval options) (\<lambda>renotifyInterval.
     deref (opt_NewHostDelay options) (\<lambda>newHostDelay.
     deref (opt_EvaluationDelay options) (\<lambda>evaluationDelay.
     deref (opt_TimeoutH options) (\<lambda>timeoutH.
     deref (opt_EscalationMessage options) (\<lambda>escalationMessage.
     deref (opt_RequireFullWindow options) (\<lambda>requireFullWindow.
     Return
       \<lparr>Name = name,
        Type = type,
        Query = query,
        Message = message,
        Tags = dd_Tags inM,
        NoDataTimeframe = opt_NoDataTimeframe options,
        NotifyAudit = notifyAudit,
        NotifyNoData = notifyNoData,
        RenotifyInterval = renotifyInterval,
        NewHostDelay = newHostDelay,
        EvaluationDelay = evaluationDelay,
        Timeout = timeoutH,
        EscalationMessage = escalationMessage,
        Thresholds = thresholds,
        RequireFullWindow = requireFullWindow,
        Locked = False\<rparr>))))))))))))))"

definition GetProvisionedMonitors ::
  "client \<Rightarrow> Config \<Rightarrow> event list \<times> (error + dd_Monitor list)" where
  "GetProvisionedMonitors cl config =
     ([Call (Client_GetMonitorsByTags [OwnerTag config])],
      GetMonitorsByTags_reply cl [OwnerTag config])"

definition createMonitor ::
  "client \<Rightarrow> Config \<Rightarrow> dd_Monitor \<Rightarrow> event list \<times> (error + dd_Monitor)" where
  "createMonitor cl config monitor =
     ([Call (Client_CreateMonitor monitor)], CreateMonitor_reply cl monitor)"

text \<open>
  \<open>updateMonitor\<close> calls \<open>client.UpdateMonitor(monitor)\<close>.  The library builds the
  path of its request from \<open>*monitor.Id\<close>: for a monitor whose \<open>Id\<close> is nil the call
  panics inside the client, before any request is sent.  The event records the call of
  the client's method.
\<close>

definition updateMonitor ::
  "client \<Rightarrow> Config \<Rightarrow> dd_Monitor \<Rightarrow> event list \<times> error option outcome" where
  "updateMonitor cl config monitor =
     ([Call (Client_UpdateMonitor monitor)],
      deref (dd_Id monitor) (\<lambda>id. Return (UpdateMonitor_reply cl monitor)))"

text \<open>
  The loop of \<open>GetProvisionedMonitor\<close>: the first monitor of that name, as
  \<open>(pointer, nil)\<close>, or \<open>(nil, error)\<close> when none has it.
\<close>

fun GetProvisionedMonitor_loop ::
  "dd_Monitor list \<Rightarrow> conf_Monitor \<Rightarrow> (dd_Monitor option \<times> error option) outcome" where
  "GetProvisionedMonitor_loop [] monitor = Return (None, Some ''Monitor does not exist.'')"
| "GetProvisionedMonitor_loop (ddMonitor # rest) monitor =
     deref (dd_Name ddMonitor) (\<lambda>name.
       if name = Name monitor then Return (Some ddMonitor, None)
       else GetProvisionedMonitor_loop rest monitor)"

definition GetProvisionedMonitor ::
  "client \<Rightarrow> Config \<Rightarrow> conf_Monitor
     \<Rightarrow> event list \<times> (dd_Monitor option \<times> error option) outcome" where
  "GetProvisionedMonitor cl config monitor =
     (case GetProvisionedMonitors cl config of
        (tr, Inl err) \<Rightarrow> (tr @ [Log LError ''Error getting monitors: %v''], Return (None, Some err))
      | (tr, Inr monitors) \<Rightarrow> (tr, GetProvisionedMonitor_loop monitors monitor))"

text \<open>
  \<open>AddOrUpdate\<close> returns \<open>(*int, error)\<close>.  Its first branch is taken on every
  non-nil error of \<open>GetProvisionedMonitor\<close>.  \<open>reflect.DeepEqual\<close> on the two
  \<open>*conf.Monitor\<close> compares the structs they point to field by field, slices element
  by element in order: it is equality of the records.
\<close>

definition AddOrUpdate ::
  "client \<Rightarrow> Config \<Rightarrow> conf_Monitor \<Rightarrow> event list \<times> (int option \<times> error option) outcome" where
  "AddOrUpdate cl config monitor =
     (case GetProvisionedMonitor cl config monitor of
        (tr, Panic) \<Rightarrow> (tr, Panic)
      | (tr, Return (ddMonitor, Some err)) \<Rightarrow>
          (case createMonitor cl config (toDdMonitor monitor) of
             (tr', Inl err) \<Rightarrow>
               (tr @ tr' @ [Log LError ''Error creating monitor %s: %s''], Return (None, Some err))
           | (tr', Inr provisioned) \<Rightarrow> (tr @ tr', Return (dd_Id provisioned, None)))
      | (tr, Return (None, None)) \<Rightarrow> (tr, Panic)
      | (tr, Return (Some ddMonitor, None)) \<Rightarrow>
          (case toMonitor ddMonitor of
             Panic \<Rightarrow> (tr, Panic)
           | Return provisioned \<Rightarrow>
               if monitor = provisioned
               then (tr @ [Log LInfo ''Monitor %d exists and is up to date.''],
                     Return (dd_Id ddMonitor, None))
               else (case updateMonitor cl config (toDdMonitor monitor) of
                       (tr', Panic) \<Rightarrow> (tr @ tr', Panic)
                     | (tr', Return (Some err)) \<Rightarrow>
                         (tr @ tr' @ [Log LError ''Could not update monitor %d: %s''],
                          Return (dd_Id ddMonitor, Some err))
                     | (tr', Return None) \<Rightarrow> (tr @ tr', Return (dd_Id ddMonitor, None)))))"

text \<open>
  \<open>DeleteMonitor\<close> returns an \<open>error\<close>.  The delete call stands in the branch
  \<open>err != nil\<close>, where it reads \<open>*ddMonitor.Id\<close>.
\<close>

definition DeleteMonitor ::
  "client \<Rightarrow> Config \<Rightarrow> conf_Monitor \<Rightarrow> event list \<times> error option outcome" where
  "DeleteMonitor cl config monitor =
     (case GetProvisionedMonitor cl config monitor of
        (tr, Panic) \<Rightarrow> (tr, Panic)
      | (tr, Return (ddMonitor, Some err)) \<Rightarrow>
          (case ddMonitor of
             None \<Rightarrow> (tr, Panic)
           | Some dd \<Rightarrow>
               (case dd_Id dd of
                  None \<Rightarrow> (tr, Panic)
                | Some i \<Rightarrow> (tr @ [Call (Client_DeleteMonitor i)], Return (DeleteMonitor_reply cl i))))
      | (tr, Return (ddMonitor, None)) \<Rightarrow> (tr, Return None))"

text \<open>
  A provisioned monitor that holds the desired definition: each field of the desired
  monitor stands in the backend's record with the same value, the tags as the same list.
\<close>

definition holds_definition :: "dd_Monitor \<Rightarrow> conf_Monitor \<Rightarrow> bool" where
  "holds_definition d m =
     (dd_Name d = Some (Name m) \<and> dd_Type d = Some (Type m) \<and>
      dd_Query d = Some (Query m) \<and> dd_Message d = Some (Message m) \<and>
      dd_Tags d = Tags m \<and>
      (case dd_Options d of
         None \<Rightarrow> False
       | Some options \<Rightarrow>
           opt_NoDataTimeframe options = NoDataTimeframe m \<and>
           opt_NotifyAudit options = Some (NotifyAudit m) \<and>
           opt_NotifyNoData options = Some (NotifyNoData m) \<and>
           opt_RenotifyInterval options = Some (RenotifyInterval m) \<and>
           opt_NewHostDelay options = Some (NewHostDelay m) \<and>
           opt_EvaluationDelay options = Some (EvaluationDelay m) \<and>
           opt_TimeoutH options = Some (Timeout m) \<and>
           opt_EscalationMessage options = Some (EscalationMessage m) \<and>
           opt_RequireFullWindow options = Some (RequireFullWindow m) \<and>
           opt_Locked options = Some (Locked m) \<and>
           (case opt_Thresholds options of
              None \<Rightarrow> False
            | Some th \<Rightarrow>
                th_Ok th = Ok (Thresholds m) \<and>
                th_Critical th = Critical (Thresholds m) \<and>
                th_Warning th = Warning (Thresholds m) \<and>
                th_Unknown th = Unknown (Thresholds m) \<and>
                th_CriticalRecovery th = CriticalRecovery (Thresholds m) \<and>
                th_WarningRecovery th = WarningRecovery (Thresholds m))))"

text \<open>
  Field-for-field equality in the words of the specification: the order of the tags is
  insignificant, their values and every other field are significant.
\<close>

definition spec_field_equal :: "conf_Monitor \<Rightarrow> conf_Monitor \<Rightarrow> bool" where
  "spec_field_equal a b =
     (a\<lparr>Tags := None\<rparr> = b\<lparr>Tags := None\<rparr> \<and>
      (case (Tags a, Tags b) of
         (Some ta, Some tb) \<Rightarrow> set ta = set tb
       | (None, None) \<Rightarrow> True
       | _ \<Rightarrow> False))"

section \<open>pkg/handler/deployments.go\<close>

text \<open>
  Of \<open>appsv1.Deployment\<close> the handlers read the annotations; the rest of the object is
  seen by the templates only.
\<close>

record Deployment =
  dep_Name :: string
  dep_Namespace :: string
  dep_Annotations :: "string \<rightharpoonup> string"

text \<open>
  The library \<open>text/template\<close> is a parameter of the model.  \<open>Parse\<close> gives the
  template pointer that \<open>template.New(...).Parse(text)\<close> returns, nil (\<open>None\<close>) when it
  returns an error, which the code drops.  \<open>Execute\<close> is \<open>t.Execute(&tpl, deployment)\<close> on
  an empty buffer: it panics, or returns having written some text to the buffer, with an
  error or without.  The buffer is empty before each call (it is new, or has been
  \<open>Reset\<close>), so \<open>tpl.String()\<close> afterwards is the text written.
\<close>

definition log_if :: "error option \<Rightarrow> string \<Rightarrow> event list" where
  "log_if err fmt = (case err of None \<Rightarrow> [] | Some e \<Rightarrow> [Log LError fmt])"

definition applyDeploymentTemplate ::
  "(string \<Rightarrow> 'tpl option) \<Rightarrow> ('tpl option \<Rightarrow> Deployment \<Rightarrow> (string \<times> error option) outcome)
     \<Rightarrow> Deployment \<Rightarrow> conf_Monitor \<Rightarrow> event list \<times> conf_Monitor outcome" where
  "applyDeploymentTemplate Parse Execute deployment monitor =
     (let name = Parse (Name monitor);
          query = Parse (Query monitor);
          msg = Parse (Message monitor);
          em = Parse (EscalationMessage monitor)
      in
      case Execute name deployment of
        Panic \<Rightarrow> ([], Panic)
      | Return (tpl, err) \<Rightarrow>
     (let tr = log_if err ''Error templating name: %s'';
          monitor = monitor\<lparr>Name := tpl\<rparr>
      in
      case Execute query deployment of
        Panic \<Rightarrow> (tr, Panic)
      | Return (tpl, err) \<Rightarrow>
     (let tr = tr @ log_if err ''Error templating query: %s'';
          monitor = monitor\<lparr>Query := tpl\<rparr>
      in
      case Execute msg deployment of
        Panic \<Rightarrow> (tr, Panic)
      | Return (tpl, err) \<Rightarrow>
     (let tr = tr @ log_if err ''Error templating message: %s'';
          monitor = monitor\<lparr>Message := tpl\<rparr>
      in
      case Execute em deployment of
        Panic \<Rightarrow> (tr, Panic)
      | Return (tpl, err) \<Rightarrow>
     (let tr = tr @ log_if err ''Error templating escalation message: %s'';
          monitor = monitor\<lparr>EscalationMessage := tpl\<rparr>
      in (tr, Return monitor))))))"

text \<open>
  The three handlers run the same loop.  \<open>applyDeploymentTemplate\<close> is given
  \<open>&monitor\<close>, the address of the loop variable, so the rendered monitor is dropped
  when the round ends.  \<open>conf.New()\<close> and \<open>cfg.GetMatchingMonitors\<close> belong to package
  \<open>conf\<close>, which is not among the sources: \<open>matching\<close> is the list of monitors that
  call returns for the annotations and the object type.
\<close>

fun deployment_loop ::
  "(string \<Rightarrow> 'tpl option) \<Rightarrow> ('tpl option \<Rightarrow> Deployment \<Rightarrow> (string \<times> error option) outcome)
     \<Rightarrow> Deployment \<Rightarrow> conf_Monitor list \<Rightarrow> event list \<Rightarrow> event list \<times> unit outcome" where
  "deployment_loop Parse Execute deployment [] tr = (tr, Return ())"
| "deployment_loop Parse Execute deployment (monitor # rest) tr =
     (let tr = tr @ [Log LInfo ''looping monitor %s''] in
      case applyDeploymentTemplate Parse Execute deployment monitor of
        (tr', Panic) \<Rightarrow> (tr @ tr', Panic)
      | (tr', Return monitor) \<Rightarrow> deployment_loop Parse Execute deployment rest (tr @ tr'))"

text \<open>
  One round of that loop seen from outside: the events it adds to the trace, and whether
  it ends without a panic.
\<close>

definition round_events ::
  "(string \<Rightarrow> 'tpl option) \<Rightarrow> ('tpl option \<Rightarrow> Deployment \<Rightarrow> (string \<times> error option) outcome)
     \<Rightarrow> Deployment \<Rightarrow> conf_Monitor \<Rightarrow> event list" where
  "round_events Parse Execute deployment monitor =
     Log LInfo ''looping monitor %s'' #
       fst (applyDeploymentTemplate Parse Execute deployment monitor)"

definition round_returns ::
  "(string \<Rightarrow> 'tpl option) \<Rightarrow> ('tpl option \<Rightarrow> Deployment \<Rightarrow> (string \<times> error option) outcome)
     \<Rightarrow> Deployment \<Rightarrow> conf_Monitor \<Rightarrow> bool" where
  "round_returns Parse Execute deployment monitor =
     (case snd (applyDeploymentTemplate Parse Execute deployment monitor) of
        Panic \<Rightarrow> False
      | Return rendered \<Rightarrow> True)"

definition OnUpdatedDeployment ::
  "((string \<rightharpoonup> string) \<Rightarrow> string \<Rightarrow> conf_Monitor list)
     \<Rightarrow> (string \<Rightarrow> 'tpl option) \<Rightarrow> ('tpl option \<Rightarrow> Deployment \<Rightarrow> (string \<times> error option) outcome)
     \<Rightarrow> Deployment \<Rightarrow> event list \<times> unit outcome" where
  "OnUpdatedDeployment matching Parse Execute deployment =
     (let monitors = matching (dep_Annotations deployment) ''deployment''
      in deployment_loop Parse Execute deployment monitors [])"

definition OnCreatedDeployment ::
  "((string \<rightharpoonup> string) \<Rightarrow> string \<Rightarrow> conf_Monitor list)
     \<Rightarrow> (string \<Rightarrow> 'tpl option) \<Rightarrow> ('tpl option \<Rightarrow> Deployment \<Rightarrow> (string \<times> error option) outcome)
     \<Rightarrow> Deployment \<Rightarrow> event list \<times> unit outcome" where
  "OnCreatedDeployment matching Parse Execute deployment =
     (let monitors = matching (dep_Annotations deployment) ''deployment''
      in deployment_loop Parse Execute deployment monitors [])"

definition OnDeletedDeployment ::
  "((string \<rightharpoonup> string) \<Rightarrow> string \<Rightarrow> conf_Monitor list)
     \<Rightarrow> (string \<Rightarrow> 'tpl option) \<Rightarrow> ('tpl option \<Rightarrow> Deployment \<Rightarrow> (string \<times> error option) outcome)
     \<Rightarrow> Deployment \<Rightarrow> event list \<times> unit outcome" where
  "OnDeletedDeployment matching Parse Execute deployment =
     (let tr = [Log LInfo ''I finally made it to my deletion handler.''];
          monitors = matching (dep_Annotations deployment) ''deployment''
      in deployment_loop Parse Execute deployment monitors tr)"

section \<open>Example inputs\<close>

text \<open>
  A rule that requires no annotation, the rule of the specification's example, which
  requires \<open>a=1\<close> and \<open>b=2\<close>, and a configuration holding given rules.
\<close>

definition rule_no_annotations :: MonitorSet where
  "rule_no_annotations =
     \<lparr>ObjectType = ''deployment'', Annotations = [], BoundObjects = [], Monitors = []\<rparr>"

definition rule_a1_b2 :: MonitorSet where
  "rule_a1_b2 =
     \<lparr>ObjectType = ''deployment'',
      Annotations = [\<lparr>a_Name = ''a'', a_Value = ''1''\<rparr>, \<lparr>a_Name = ''b'', a_Value = ''2''\<rparr>],
      BoundObjects = [], Monitors = []\<rparr>"

definition config_of :: "string list \<Rightarrow> MonitorSet list \<Rightarrow> Config" where
  "config_of paths rules =
     \<lparr>DatadogAPIKey = ''k'', DatadogAppKey = ''k'', ClusterName = ''c'', OwnerTag = ''dd-manager'',
      MonitorDefinitionsPath = paths,
      Rulesets = Some \<lparr>ClusterVariables = None, MonitorSets = rules\<rparr>, DryRun = False\<rparr>"

text \<open>A desired monitor with two tags, and templates in two of its text fields.\<close>

definition monitor_cpu :: conf_Monitor where
  "monitor_cpu =
     \<lparr>Name = ''cpu {{.Name}}'', Type = ''metric alert'', Query = ''{{.Bad}}'',
      Message = ''high cpu'', Tags = Some [''team:a'', ''env:b''], NoDataTimeframe = 10,
      NotifyAudit = False, NotifyNoData = True, RenotifyInterval = 0, NewHostDelay = 300,
      EvaluationDelay = 0, Timeout = 0, EscalationMessage = ''still high'',
      Thresholds = \<lparr>Ok = None, Critical = Some ''90'', Warning = Some ''80'', Unknown = None,
        CriticalRecovery = None, WarningRecovery = None\<rparr>,
      RequireFullWindow = True, Locked = False\<rparr>"

text \<open>
  The backend's record of that monitor, a record of another name, and the record of the
  monitor with its two tags swapped.
\<close>

definition dd_cpu :: dd_Monitor where
  "dd_cpu = (toDdMonitor monitor_cpu)\<lparr>dd_Id := Some 7\<rparr>"

definition dd_memory :: dd_Monitor where
  "dd_memory = dd_cpu\<lparr>dd_Id := Some 3, dd_Name := Some ''memory''\<rparr>"

definition dd_cpu_swapped :: dd_Monitor where
  "dd_cpu_swapped = dd_cpu\<lparr>dd_Tags := Some [''env:b'', ''team:a'']\<rparr>"

text \<open>
  A backend that lists the given answer, creates with identifier 8 and accepts updates
  and deletes.
\<close>

definition client_listing :: "(error + dd_Monitor list) \<Rightarrow> client" where
  "client_listing answer =
     \<lparr>GetMonitorsByTags_reply = (\<lambda>tags. answer),
      CreateMonitor_reply = (\<lambda>m. Inr (m\<lparr>dd_Id := Some 8\<rparr>)),
      UpdateMonitor_reply = (\<lambda>m. None),
      DeleteMonitor_reply = (\<lambda>i. None)\<rparr>"

text \<open>
  A binding rule for namespaces annotated \<open>team=payments\<close>, bound to deployments, and
  a cluster in which the namespace \<open>payments\<close> carries that annotation.
\<close>

definition rule_binding :: MonitorSet where
  "rule_binding =
     \<lparr>ObjectType = ''binding'',
      Annotations = [\<lparr>a_Name = ''team'', a_Value = ''payments''\<rparr>],
      BoundObjects = [''deployment''], Monitors = [dd_cpu]\<rparr>"

definition namespaces :: "string \<Rightarrow> error + (string \<rightharpoonup> string)" where
  "namespaces ns =
     (if ns = ''payments'' then Inr [''team'' \<mapsto> ''payments''] else Inl ''not found'')"

text \<open>
  Two local sources: \<open>a.yml\<close> is missing, \<open>b.yml\<close> holds the given ruleset.  No URL
  answers.
\<close>

definition sources_b_only :: "ruleset \<Rightarrow> sources" where
  "sources_b_only rs =
     \<lparr>http_Get = (\<lambda>url. Inl ''connection refused''),
      os_Stat = (\<lambda>path. path = ''b.yml''),
      ioutil_ReadFile = (\<lambda>path. if path = ''b.yml'' then Inr ''rulesets-b'' else Inl ''no such file''),
      yaml_Unmarshal = (\<lambda>yml. if yml = ''rulesets-b'' then Inr rs else Inl ''yaml: cannot unmarshal'')\<rparr>"

text \<open>
  A template engine small enough to run by hand: a template is its text; \<open>{{.Bad}}\<close>
  fails having written nothing, a text ending in \<open>{{.Name}}\<close> writes the text before it
  and the name of the deployment, any other text is written as it is.  A nil template
  panics.
\<close>

definition tiny_Parse :: "string \<Rightarrow> string option" where
  "tiny_Parse text = Some text"

definition tiny_Execute :: "string option \<Rightarrow> Deployment \<Rightarrow> (string \<times> error option) outcome" where
  "tiny_Execute t deployment =
     (case t of
        None \<Rightarrow> Panic
      | Some text \<Rightarrow>
          if text = ''{{.Bad}}'' then Return ([], Some ''no field Bad'')
          else if drop (length text - 9) text = ''{{.Name}}''
          then Return (take (length text - 9) text @ dep_Name deployment, None)
          else Return (text, None))"

definition deployment_web :: Deployment where
  "deployment_web =
     \<lparr>dep_Name = ''web'', dep_Namespace = ''payments'', dep_Annotations = [''a'' \<mapsto> ''1'']\<rparr>"

text \<open>The matched monitors of a deployment annotated \<open>a=1\<close>.\<close>

definition matching_cpu :: "(string \<rightharpoonup> string) \<Rightarrow> string \<Rightarrow> conf_Monitor list" where
  "matching_cpu annotations objectType =
     (if objectType = ''deployment'' \<and> annotations ''a'' = Some ''1'' then [monitor_cpu] else [])"

section \<open>Properties of the matcher\<close>

lemma hasAllAnnotations_loop_True:
  "fst (hasAllAnnotations_loop annotations as True) =
     list_all (\<lambda>a. annotations (a_Name a) = Some (a_Value a)) as"
  by (induction as) (auto split: option.splits)

lemma hasAllAnnotations_loop_False:
  "fst (hasAllAnnotations_loop annotations as False) =
     (as \<noteq> [] \<and> list_all (\<lambda>a. annotations (a_Name a) = Some (a_Value a)) as)"
  by (cases as) (auto simp: hasAllAnnotations_loop_True split: option.splits)

lemma getMatchingRulesets_loop_fst:
  "fst (getMatchingRulesets_loop annotations objectType rs valid tr) =
     valid @ filter (rule_selected annotations objectType) rs"
proof (induction rs arbitrary: valid tr)
  case Nil
  show ?case by simp
next
  case (Cons r rs)
  obtain h lg where h: "hasAllAnnotations_loop annotations (Annotations r) False = (h, lg)"
    by (cases "hasAllAnnotations_loop annotations (Annotations r) False")
  have hv: "h = (Annotations r \<noteq> [] \<and>
      list_all (\<lambda>a. annotations (a_Name a) = Some (a_Value a)) (Annotations r))"
    using hasAllAnnotations_loop_False [of annotations "Annotations r"] h by simp
  show ?case
    using Cons.IH h hv by (simp add: rule_selected_def spec_rule_matches_def)
qed

lemma GetMatchingMonitors_loop_eq:
  "GetMatchingMonitors_loop mSets acc = acc @ concat (map Monitors mSets)"
  by (induction mSets arbitrary: acc) auto
lemma getMatchingRulesets_Some:
  "Rulesets config = Some rs \<Longrightarrow>
   snd (getMatchingRulesets config annotations objectType) =
     Return (filter (rule_selected annotations objectType) (MonitorSets rs))"
proof -
  assume r: "Rulesets config = Some rs"
  obtain v tr where l:
    "getMatchingRulesets_loop annotations objectType (MonitorSets rs) [] [] = (v, tr)"
    by (cases "getMatchingRulesets_loop annotations objectType (MonitorSets rs) [] []")
  have "v = filter (rule_selected annotations objectType) (MonitorSets rs)"
    using getMatchingRulesets_loop_fst [of annotations objectType "MonitorSets rs" "[]" "[]"] l
    by simp
  then show ?thesis
    by (simp add: getMatchingRulesets_def r l)
qed

text \<open>
  C6, as stated, fails on a rule that requires no annotation: it has the given type and
  each of its (zero) required annotations is present, so the stated equivalence would
  select it, yet the matcher returns nothing.
\<close>

theorem C6_matcher_iff_counterexample:
  "spec_rule_matches Map.empty ''deployment'' rule_no_annotations \<and>
   snd (getMatchingRulesets (config_of [''conf.yml''] [rule_no_annotations]) Map.empty ''deployment'')
     = Return []"
  by (simp add: spec_rule_matches_def rule_no_annotations_def config_of_def
      getMatchingRulesets_def)

text \<open>
  C6, amended: on a loaded configuration the matcher returns, in declaration order,
  exactly the rules whose type is the given one, whose list of required annotations is
  not empty, and whose required annotations are all present on the object with exactly
  equal values.  Only the required names are looked up, so further annotations of the
  object play no part.
\<close>

theorem C6_matcher_selects:
  "snd (getMatchingRulesets (config\<lparr>Rulesets := Some rs\<rparr>) annotations objectType) =
     Return (filter (rule_selected annotations objectType) (MonitorSets rs))"
  by (simp add: getMatchingRulesets_Some)

text \<open>
  The example of the specification: the rule requiring \<open>a=1, b=2\<close> is not selected for
  an object that has only \<open>a=1\<close>, and is selected for one with \<open>a=1, b=2, c=3\<close>.
\<close>

theorem C6_matcher_selects_witness:
  "snd (getMatchingRulesets (config_of [''conf.yml''] [rule_no_annotations, rule_a1_b2])
          [''a'' \<mapsto> ''1''] ''deployment'') = Return [] \<and>
   snd (getMatchingRulesets (config_of [''conf.yml''] [rule_no_annotations, rule_a1_b2])
          [''a'' \<mapsto> ''1'', ''b'' \<mapsto> ''2'', ''c'' \<mapsto> ''3''] ''deployment'') = Return [rule_a1_b2]"
  using C6_matcher_selects [where config = "config_of [''conf.yml''] [rule_no_annotations, rule_a1_b2]"
      and rs = "\<lparr>ClusterVariables = None, MonitorSets = [rule_no_annotations, rule_a1_b2]\<rparr>"
      and annotations = "[''a'' \<mapsto> ''1'']" and objectType = "''deployment''"]
    C6_matcher_selects [where config = "config_of [''conf.yml''] [rule_no_annotations, rule_a1_b2]"
      and rs = "\<lparr>ClusterVariables = None, MonitorSets = [rule_no_annotations, rule_a1_b2]\<rparr>"
      and annotations = "[''a'' \<mapsto> ''1'', ''b'' \<mapsto> ''2'', ''c'' \<mapsto> ''3'']"
      and objectType = "''deployment''"]
  by (simp add: config_of_def rule_selected_def spec_rule_matches_def
      rule_no_annotations_def rule_a1_b2_def)

lemma filter_selected_nonempty:
  "list_all (\<lambda>r. Annotations r \<noteq> []) (filter (rule_selected annotations objectType) rules)"
  by (induction rules) (auto simp: rule_selected_def)

lemma filter_selected_idem:
  "filter (\<lambda>r. Annotations r \<noteq> [] \<and> rule_selected annotations objectType r) rules =
   filter (rule_selected annotations objectType) rules"
  by (rule filter_cong) (auto simp: rule_selected_def)

lemma GetMatchingMonitors_Some:
  "Rulesets config = Some rs \<Longrightarrow>
   snd (GetMatchingMonitors config annotations objectType) =
     Return (concat (map Monitors
       (filter (rule_selected annotations objectType) (MonitorSets rs))))"
proof -
  assume r: "Rulesets config = Some rs"
  obtain tr where g: "getMatchingRulesets config annotations objectType =
      (tr, Return (filter (rule_selected annotations objectType) (MonitorSets rs)))"
    using getMatchingRulesets_Some [OF r, of annotations objectType]
    by (cases "getMatchingRulesets config annotations objectType") simp
  show ?thesis
    by (simp add: GetMatchingMonitors_def g GetMatchingMonitors_loop_eq)
qed

text \<open>
  C10: a rule whose list of required annotations is empty is never among the rules the
  matcher selects, whatever the object type and the annotations (the matcher panics
  only on a configuration that has no ruleset yet); and the monitors that
  \<open>GetMatchingMonitors\<close> returns are those it returns with every such rule deleted
  from the ruleset, so the monitors of such a rule are applied to no object.
\<close>

theorem C10_empty_rule_never_selected:
  "(case snd (getMatchingRulesets config annotations objectType) of
      Panic \<Rightarrow> Rulesets config = None
    | Return sel \<Rightarrow> list_all (\<lambda>r. Annotations r \<noteq> []) sel) \<and>
   snd (GetMatchingMonitors (config\<lparr>Rulesets := Some rs\<rparr>) annotations objectType) =
   snd (GetMatchingMonitors
          (config\<lparr>Rulesets :=
             Some (rs\<lparr>MonitorSets := filter (\<lambda>r. Annotations r \<noteq> []) (MonitorSets rs)\<rparr>)\<rparr>)
          annotations objectType)"
proof
  show "case snd (getMatchingRulesets config annotations objectType) of
      Panic \<Rightarrow> Rulesets config = None
    | Return sel \<Rightarrow> list_all (\<lambda>r. Annotations r \<noteq> []) sel"
  proof (cases "Rulesets config")
    case None
    then show ?thesis by (simp add: getMatchingRulesets_def)
  next
    case (Some rs0)
    then show ?thesis
      by (simp add: getMatchingRulesets_Some filter_selected_nonempty)
  qed
next
  show "snd (GetMatchingMonitors (config\<lparr>Rulesets := Some rs\<rparr>) annotations objectType) =
   snd (GetMatchingMonitors
          (config\<lparr>Rulesets :=
             Some (rs\<lparr>MonitorSets := filter (\<lambda>r. Annotations r \<noteq> []) (MonitorSets rs)\<rparr>)\<rparr>)
          annotations objectType)"
    by (simp add: GetMatchingMonitors_Some filter_selected_idem)
qed

text \<open>
  An object with three annotations and a ruleset whose only rule requires none:
  nothing is selected.
\<close>

theorem C10_empty_rule_never_selected_witness:
  "snd (getMatchingRulesets (config_of [''conf.yml''] [rule_no_annotations])
          [''a'' \<mapsto> ''1'', ''b'' \<mapsto> ''2'', ''c'' \<mapsto> ''3''] ''deployment'') = Return []"
  using C10_empty_rule_never_selected [where config = "config_of [''conf.yml''] [rule_no_annotations]"
      and annotations = "[''a'' \<mapsto> ''1'', ''b'' \<mapsto> ''2'', ''c'' \<mapsto> ''3'']"
      and objectType = "''deployment''"
      and rs = "\<lparr>ClusterVariables = None, MonitorSets = [rule_no_annotations]\<rparr>"]
  by (simp add: config_of_def rule_no_annotations_def getMatchingRulesets_def)


section \<open>Properties of the binding path\<close>

text \<open>Neither tagging loop writes an element of the slice it ranges over.\<close>

lemma AppendTag_loop_elems: "AppendTag_loop elems ms tag = elems"
  by (induction ms) simp_all

lemma AppendTag_unchanged: "AppendTag mSet tag = mSet"
  by (simp add: AppendTag_def AppendTag_loop_elems)

lemma GetBoundMonitors_tag_loop_elems: "GetBoundMonitors_tag_loop elems ms = elems"
  by (induction ms) simp_all

lemma GetBoundMonitors_loop_eq:
  "GetBoundMonitors_loop mSets objectType linked =
     linked @ concat (map Monitors (filter (\<lambda>mSet. contains (BoundObjects mSet) objectType) mSets))"
  by (induction mSets arbitrary: linked)
    (simp_all add: AppendTag_unchanged GetBoundMonitors_tag_loop_elems)

text \<open>
  C3 at a failing input: the namespace \<open>payments\<close> satisfies a binding rule bound to
  deployments, and \<open>GetBoundMonitors\<close> returns the rule's monitor as it was declared,
  without the tag \<open>dd-manager:bound_object\<close>.
\<close>

theorem C3_bound_monitors_not_tagged:
  "snd (GetBoundMonitors namespaces (config_of [''conf.yml''] [rule_binding])
          ''payments'' ''deployment'') = Return [dd_cpu] \<and>
   has_tag ''dd-manager:bound_object'' dd_cpu = False"
  by (simp add: GetBoundMonitors_def namespaces_def config_of_def rule_binding_def
      getMatchingRulesets_def AppendTag_def has_tag_def dd_cpu_def toDdMonitor_def
      monitor_cpu_def)

section \<open>Properties of the reload\<close>

text \<open>
  The collection's map of cluster variables is nil throughout the loop, so the first
  source that loads, parses and carries a cluster variable ends the run with a panic;
  without such a source the run returns the rules of the sources that loaded, in the
  order of the sources.
\<close>

lemma ClusterVariables_loop_None:
  "ClusterVariables_loop kvs None = (if kvs = [] then Return None else Panic)"
  by (cases kvs) auto

lemma reloadRulesets_loop_snd:
  "snd (reloadRulesets_loop io paths \<lparr>ClusterVariables = None, MonitorSets = rules\<rparr> tr) =
     (if list_ex (defines_variables io) paths then Panic
      else Return \<lparr>ClusterVariables = None,
                   MonitorSets = rules @ concat (map (loaded_rules io) paths)\<rparr>)"
proof (induction paths arbitrary: rules tr)
  case Nil
  show ?case by simp
next
  case (Cons p ps)
  show ?case
  proof (cases "loadFromPath io p")
    case (Inl err)
    then have "defines_variables io p = False" and "loaded_rules io p = []"
      by (simp_all add: defines_variables_def loaded_rules_def)
    then show ?thesis
      using Cons.IH Inl by simp
  next
    case (Inr yml)
    show ?thesis
    proof (cases "yaml_Unmarshal io yml")
      case (Inl err)
      then have "defines_variables io p = False" and "loaded_rules io p = []"
        using Inr by (simp_all add: defines_variables_def loaded_rules_def)
      then show ?thesis
        using Cons.IH Inl Inr by simp
    next
      case parsed: (Inr rSet)
      then have "defines_variables io p = (entries (ClusterVariables rSet) \<noteq> [])"
        and "loaded_rules io p = MonitorSets rSet"
        using Inr by (simp_all add: defines_variables_def loaded_rules_def)
      then show ?thesis
        using Cons.IH parsed Inr by (simp add: ClusterVariables_loop_None)
    qed
  qed
qed

lemma reloadRulesets_snd:
  "snd (reloadRulesets io config) =
     (if list_ex (defines_variables io) (MonitorDefinitionsPath config) then Panic
      else Return (config\<lparr>Rulesets := Some \<lparr>ClusterVariables = None,
             MonitorSets = concat (map (loaded_rules io) (MonitorDefinitionsPath config))\<rparr>\<rparr>))"
proof -
  obtain tr r where l: "reloadRulesets_loop io (MonitorDefinitionsPath config)
      \<lparr>ClusterVariables = None, MonitorSets = []\<rparr> [] = (tr, r)"
    by (cases "reloadRulesets_loop io (MonitorDefinitionsPath config)
      \<lparr>ClusterVariables = None, MonitorSets = []\<rparr> []")
  have "r = (if list_ex (defines_variables io) (MonitorDefinitionsPath config) then Panic
      else Return \<lparr>ClusterVariables = None,
             MonitorSets = concat (map (loaded_rules io) (MonitorDefinitionsPath config))\<rparr>)"
    using reloadRulesets_loop_snd [of io "MonitorDefinitionsPath config" "[]" "[]"] l by simp
  then show ?thesis
    by (simp add: reloadRulesets_def l)
qed

text \<open>
  C1, as stated, fails in its second half.  The configuration holds a rule loaded
  earlier from \<open>a.yml\<close> and one from \<open>b.yml\<close>; \<open>a.yml\<close> has become unreachable.
  After the reload only the rule of \<open>b.yml\<close> is left.  With \<open>a.yml\<close> as the only
  source, the reload publishes the empty ruleset.
\<close>

theorem C1_reload_keeps_prior_counterexample:
  "snd (reloadRulesets (sources_b_only \<lparr>ClusterVariables = None, MonitorSets = [rule_a1_b2]\<rparr>)
          (config_of [''a.yml'', ''b.yml''] [rule_no_annotations, rule_a1_b2])) =
     Return (config_of [''a.yml'', ''b.yml''] [rule_a1_b2]) \<and>
   snd (reloadRulesets (sources_b_only \<lparr>ClusterVariables = None, MonitorSets = [rule_a1_b2]\<rparr>)
          (config_of [''a.yml''] [rule_no_annotations])) =
     Return (config_of [''a.yml''] [])"
  by (simp add: reloadRulesets_def sources_b_only_def config_of_def loadFromPath_def
      HasPrefix_def entries_def)

text \<open>
  C1, amended: when no source that loads defines a cluster variable, a reload returns
  normally and publishes exactly the rules of the sources that were fetched and parsed
  in this run, in the order of the sources; a source that fails to fetch or to parse
  contributes nothing, and nothing of the previous ruleset is kept.
\<close>

theorem C1_reload_merges_loaded_sources:
  "list_all (\<lambda>path. \<not> defines_variables io path) (MonitorDefinitionsPath config) \<Longrightarrow>
   snd (reloadRulesets io config) =
     Return (config\<lparr>Rulesets := Some \<lparr>ClusterVariables = None,
        MonitorSets = concat (map (loaded_rules io) (MonitorDefinitionsPath config))\<rparr>\<rparr>)"
  by (simp add: reloadRulesets_snd list_ex_iff list_all_iff)

text \<open>Two sources, the first unreachable: the rules of the second are published.\<close>

theorem C1_reload_merges_loaded_sources_witness:
  "list_all (\<lambda>path. \<not> defines_variables
       (sources_b_only \<lparr>ClusterVariables = None, MonitorSets = [rule_a1_b2]\<rparr>) path)
     [''a.yml'', ''b.yml''] \<and>
   snd (reloadRulesets (sources_b_only \<lparr>ClusterVariables = None, MonitorSets = [rule_a1_b2]\<rparr>)
          (config_of [''a.yml'', ''b.yml''] [])) =
     Return (config_of [''a.yml'', ''b.yml''] [rule_a1_b2])"
proof -
  have h: "list_all (\<lambda>path. \<not> defines_variables
       (sources_b_only \<lparr>ClusterVariables = None, MonitorSets = [rule_a1_b2]\<rparr>) path)
     (MonitorDefinitionsPath (config_of [''a.yml'', ''b.yml''] []))"
    by (simp add: defines_variables_def sources_b_only_def config_of_def loadFromPath_def
        HasPrefix_def entries_def)
  show ?thesis
    using h C1_reload_merges_loaded_sources [OF h]
    by (simp add: loaded_rules_def sources_b_only_def config_of_def loadFromPath_def
        HasPrefix_def)
qed

text \<open>
  C5 at a failing input: the first load at start-up, from one source that parses and
  defines the cluster variable \<open>cluster=prod\<close>, panics on the assignment into the nil
  map of the collection.
\<close>

theorem C5_reload_panics_on_cluster_variables:
  "snd (reloadRulesets
          (sources_b_only \<lparr>ClusterVariables = Some [(''cluster'', ''prod'')], MonitorSets = []\<rparr>)
          ((config_of [''b.yml''] [])\<lparr>Rulesets := None\<rparr>)) = Panic"
  by (simp add: reloadRulesets_def sources_b_only_def config_of_def loadFromPath_def
      HasPrefix_def entries_def)


section \<open>Properties of the sync functions\<close>

text \<open>
  C2 at a failing input: the list call fails with \<open>timeout\<close>, and \<open>AddOrUpdate\<close> goes
  on to issue a create call for the monitor and returns the new identifier.
\<close>

theorem C2_create_on_list_failure:
  "AddOrUpdate (client_listing (Inl ''timeout'')) (config_of [''conf.yml''] []) monitor_cpu =
     ([Call (Client_GetMonitorsByTags [''dd-manager'']),
       Log LError ''Error getting monitors: %v'',
       Call (Client_CreateMonitor (toDdMonitor monitor_cpu))],
      Return (Some 8, None))"
  by (simp add: AddOrUpdate_def GetProvisionedMonitor_def GetProvisionedMonitors_def
      createMonitor_def client_listing_def config_of_def toDdMonitor_def)

text \<open>
  C9 at two failing inputs: with an owned monitor of that name in the backend,
  \<open>DeleteMonitor\<close> issues no delete call and returns nil; with no owned monitor, it
  dereferences the nil monitor and panics.
\<close>

theorem C9_delete_inverted:
  "DeleteMonitor (client_listing (Inr [dd_cpu])) (config_of [''conf.yml''] []) monitor_cpu =
     ([Call (Client_GetMonitorsByTags [''dd-manager''])], Return None) \<and>
   DeleteMonitor (client_listing (Inr [])) (config_of [''conf.yml''] []) monitor_cpu =
     ([Call (Client_GetMonitorsByTags [''dd-manager''])], Panic)"
  by (simp add: DeleteMonitor_def GetProvisionedMonitor_def GetProvisionedMonitors_def
      client_listing_def config_of_def dd_cpu_def toDdMonitor_def deref_def)

text \<open>
  On a list in which every monitor carries a name, the lookup returns the first monitor
  of the desired name; and a provisioned monitor that holds the definition of an
  unlocked desired monitor converts back to it.
\<close>

lemma GetProvisionedMonitor_loop_find:
  "list_all (\<lambda>d. dd_Name d \<noteq> None) monitors \<Longrightarrow>
   GetProvisionedMonitor_loop monitors monitor =
     (case find (\<lambda>d. dd_Name d = Some (Name monitor)) monitors of
        None \<Rightarrow> Return (None, Some ''Monitor does not exist.'')
      | Some d \<Rightarrow> Return (Some d, None))"
proof (induction monitors)
  case Nil
  show ?case by simp
next
  case (Cons d ds)
  from Cons.prems obtain n where n: "dd_Name d = Some n" by auto
  from Cons.prems have "list_all (\<lambda>d. dd_Name d \<noteq> None) ds" by simp
  with Cons.IH have ih: "GetProvisionedMonitor_loop ds monitor =
     (case find (\<lambda>d. dd_Name d = Some (Name monitor)) ds of
        None \<Rightarrow> Return (None, Some ''Monitor does not exist.'')
      | Some d \<Rightarrow> Return (Some d, None))" by simp
  show ?case
    using n ih by (simp add: deref_def)
qed

lemma toMonitor_holds_definition:
  assumes h: "holds_definition d m" and l: "Locked m = False"
  shows "toMonitor d = Return m"
proof -
  from h obtain options where o: "dd_Options d = Some options"
    by (auto simp: holds_definition_def split: option.splits)
  from h o obtain th where t: "opt_Thresholds options = Some th"
    by (auto simp: holds_definition_def split: option.splits)
  have th: "\<lparr>Ok = th_Ok th, Critical = th_Critical th, Warning = th_Warning th,
      Unknown = th_Unknown th, CriticalRecovery = th_CriticalRecovery th,
      WarningRecovery = th_WarningRecovery th\<rparr> = Thresholds m"
    using h o t by (cases "Thresholds m") (simp add: holds_definition_def)
  show ?thesis
    using h o t th l
    by (cases m) (simp add: holds_definition_def toMonitor_def deref_def)
qed

text \<open>
  C7, as stated, fails: the provisioned monitor equals the desired one field for field,
  its two tags in the other order; \<open>AddOrUpdate\<close> does not leave it alone but calls
  the client's update, with a monitor that has no identifier, and the run ends in a
  panic.
\<close>

theorem C7_tag_order_counterexample:
  "(case toMonitor dd_cpu_swapped of
      Panic \<Rightarrow> False
    | Return provisioned \<Rightarrow> spec_field_equal monitor_cpu provisioned) \<and>
   AddOrUpdate (client_listing (Inr [dd_cpu_swapped])) (config_of [''conf.yml''] [])
       monitor_cpu =
     ([Call (Client_GetMonitorsByTags [''dd-manager'']),
       Call (Client_UpdateMonitor (toDdMonitor monitor_cpu))],
      Panic)"
  by (simp add: AddOrUpdate_def GetProvisionedMonitor_def GetProvisionedMonitors_def
      updateMonitor_def client_listing_def config_of_def dd_cpu_swapped_def dd_cpu_def
      toDdMonitor_def toMonitor_def deref_def monitor_cpu_def spec_field_equal_def
      insert_commute)

text \<open>
  C7, amended: for a desired monitor that is not locked, when the list call succeeds,
  every listed monitor carries a name, and the first listed monitor of the desired name
  holds the desired definition in every field, the tags as the same list in the same
  order, \<open>AddOrUpdate\<close> issues the list call and no other call, and returns the
  identifier of that monitor without error.
\<close>

theorem C7_converged_no_write:
  assumes listed: "GetMonitorsByTags_reply cl [OwnerTag config] = Inr monitors"
    and named: "list_all (\<lambda>d. dd_Name d \<noteq> None) monitors"
    and first: "find (\<lambda>d. dd_Name d = Some (Name monitor)) monitors = Some ddMonitor"
    and equal: "holds_definition ddMonitor monitor"
    and unlocked: "Locked monitor = False"
  shows "AddOrUpdate cl config monitor =
     ([Call (Client_GetMonitorsByTags [OwnerTag config]),
       Log LInfo ''Monitor %d exists and is up to date.''],
      Return (dd_Id ddMonitor, None))"
proof -
  have found: "GetProvisionedMonitor_loop monitors monitor = Return (Some ddMonitor, None)"
    using GetProvisionedMonitor_loop_find [OF named, of monitor] first by simp
  have conv: "toMonitor ddMonitor = Return monitor"
    using equal unlocked by (rule toMonitor_holds_definition)
  show ?thesis
    by (simp add: AddOrUpdate_def GetProvisionedMonitor_def GetProvisionedMonitors_def
        listed found conv)
qed

text \<open>
  The backend lists a monitor of another name first, then the desired monitor as it was
  created.
\<close>

theorem C7_converged_no_write_witness:
  "GetMonitorsByTags_reply (client_listing (Inr [dd_memory, dd_cpu]))
     [OwnerTag (config_of [''conf.yml''] [])] = Inr [dd_memory, dd_cpu] \<and>
   list_all (\<lambda>d. dd_Name d \<noteq> None) [dd_memory, dd_cpu] \<and>
   find (\<lambda>d. dd_Name d = Some (Name monitor_cpu)) [dd_memory, dd_cpu] = Some dd_cpu \<and>
   holds_definition dd_cpu monitor_cpu \<and>
   Locked monitor_cpu = False \<and>
   AddOrUpdate (client_listing (Inr [dd_memory, dd_cpu])) (config_of [''conf.yml''] [])
       monitor_cpu =
     ([Call (Client_GetMonitorsByTags [''dd-manager'']),
       Log LInfo ''Monitor %d exists and is up to date.''],
      Return (Some 7, None))"
proof -
  have h1: "GetMonitorsByTags_reply (client_listing (Inr [dd_memory, dd_cpu]))
     [OwnerTag (config_of [''conf.yml''] [])] = Inr [dd_memory, dd_cpu]"
    by (simp add: client_listing_def)
  have h2: "list_all (\<lambda>d. dd_Name d \<noteq> None) [dd_memory, dd_cpu]"
    by (simp add: dd_memory_def dd_cpu_def toDdMonitor_def)
  have h3: "find (\<lambda>d. dd_Name d = Some (Name monitor_cpu)) [dd_memory, dd_cpu] = Some dd_cpu"
    by (simp add: dd_memory_def dd_cpu_def toDdMonitor_def monitor_cpu_def)
  have h4: "holds_definition dd_cpu monitor_cpu"
    by (simp add: holds_definition_def dd_cpu_def toDdMonitor_def)
  have h5: "Locked monitor_cpu = False"
    by (simp add: monitor_cpu_def)
  show ?thesis
    using h1 h2 h3 h4 h5 C7_converged_no_write [OF h1 h2 h3 h4 h5]
    by (simp add: config_of_def dd_cpu_def)
qed

section \<open>Properties of the deployment handlers\<close>

text \<open>
  Rendering writes log lines only, and the trace a handler starts with is a prefix of
  the trace it ends with.
\<close>

lemma log_if_no_call: "filter is_client_call (log_if err fmt) = []"
  by (simp add: log_if_def split: option.splits)

lemma applyDeploymentTemplate_no_call:
  "filter is_client_call (fst (applyDeploymentTemplate Parse Execute deployment monitor)) = []"
  by (simp add: applyDeploymentTemplate_def Let_def log_if_no_call
      split: outcome.splits prod.splits)

lemma deployment_loop_append:
  "deployment_loop Parse Execute deployment monitors (tr1 @ tr2) =
     (tr1 @ fst (deployment_loop Parse Execute deployment monitors tr2),
      snd (deployment_loop Parse Execute deployment monitors tr2))"
proof (induction monitors arbitrary: tr2)
  case Nil
  show ?case by simp
next
  case (Cons m ms)
  obtain tr' r where a: "applyDeploymentTemplate Parse Execute deployment m = (tr', r)"
    by (cases "applyDeploymentTemplate Parse Execute deployment m")
  show ?case
  proof (cases r)
    case Panic
    then show ?thesis using a by simp
  next
    case (Return m')
    then show ?thesis
      using a Cons.IH [of "tr2 @ Log LInfo ''looping monitor %s'' # tr'"] by simp
  qed
qed

lemma deployment_loop_no_call:
  "filter is_client_call tr = [] \<Longrightarrow>
   filter is_client_call (fst (deployment_loop Parse Execute deployment monitors tr)) = []"
proof (induction monitors arbitrary: tr)
  case Nil
  then show ?case by simp
next
  case (Cons m ms)
  obtain tr' r where a: "applyDeploymentTemplate Parse Execute deployment m = (tr', r)"
    by (cases "applyDeploymentTemplate Parse Execute deployment m")
  have n: "filter is_client_call tr' = []"
    using applyDeploymentTemplate_no_call [of Parse Execute deployment m] a by simp
  show ?case
  proof (cases r)
    case Panic
    then show ?thesis using a n Cons.prems by simp
  next
    case (Return m')
    have "filter is_client_call (tr @ Log LInfo ''looping monitor %s'' # tr') = []"
      using n Cons.prems by simp
    then show ?thesis
      using a Return Cons.IH [of "tr @ Log LInfo ''looping monitor %s'' # tr'"] by simp
  qed
qed

text \<open>
  C8, as stated, fails: the query \<open>{{.Bad}}\<close> fails during execution, and the query of
  the monitor afterwards is the empty text the template had written, not the text it
  had before; the name is rendered.
\<close>

theorem C8_failed_field_counterexample:
  "snd (applyDeploymentTemplate tiny_Parse tiny_Execute deployment_web monitor_cpu) =
     Return (monitor_cpu\<lparr>Name := ''cpu web'', Query := []\<rparr>) \<and>
   Query monitor_cpu = ''{{.Bad}}''"
  by (simp add: applyDeploymentTemplate_def tiny_Parse_def tiny_Execute_def
      deployment_web_def monitor_cpu_def log_if_def)

text \<open>
  C8, amended: when the four executions return, each text field of the monitor becomes
  the text its own template wrote, whole when it succeeded and the part written before
  the failure when it failed, whatever happened to the other fields; every failure is
  logged under the name of its field, rendering goes on to the next field, and nothing
  is returned to the caller.
\<close>

theorem C8_fields_rendered_independently:
  "Execute (Parse (Name monitor)) deployment = Return (name, e1) \<Longrightarrow>
   Execute (Parse (Query monitor)) deployment = Return (query, e2) \<Longrightarrow>
   Execute (Parse (Message monitor)) deployment = Return (msg, e3) \<Longrightarrow>
   Execute (Parse (EscalationMessage monitor)) deployment = Return (em, e4) \<Longrightarrow>
   applyDeploymentTemplate Parse Execute deployment monitor =
     (log_if e1 ''Error templating name: %s'' @
      log_if e2 ''Error templating query: %s'' @
      log_if e3 ''Error templating message: %s'' @
      log_if e4 ''Error templating escalation message: %s'',
      Return (monitor\<lparr>Name := name, Query := query, Message := msg,
                EscalationMessage := em\<rparr>))"
  by (simp add: applyDeploymentTemplate_def)

text \<open>The name renders, the query fails, message and escalation message are plain text.\<close>

theorem C8_fields_rendered_independently_witness:
  "tiny_Execute (tiny_Parse (Name monitor_cpu)) deployment_web = Return (''cpu web'', None) \<and>
   tiny_Execute (tiny_Parse (Query monitor_cpu)) deployment_web =
     Return ([], Some ''no field Bad'') \<and>
   tiny_Execute (tiny_Parse (Message monitor_cpu)) deployment_web = Return (''high cpu'', None) \<and>
   tiny_Execute (tiny_Parse (EscalationMessage monitor_cpu)) deployment_web =
     Return (''still high'', None) \<and>
   applyDeploymentTemplate tiny_Parse tiny_Execute deployment_web monitor_cpu =
     ([Log LError ''Error templating query: %s''],
      Return (monitor_cpu\<lparr>Name := ''cpu web'', Query := [], Message := ''high cpu'',
                EscalationMessage := ''still high''\<rparr>))"
proof -
  have h1: "tiny_Execute (tiny_Parse (Name monitor_cpu)) deployment_web =
      Return (''cpu web'', None)"
    by (simp add: tiny_Parse_def tiny_Execute_def deployment_web_def monitor_cpu_def)
  have h2: "tiny_Execute (tiny_Parse (Query monitor_cpu)) deployment_web =
      Return ([], Some ''no field Bad'')"
    by (simp add: tiny_Parse_def tiny_Execute_def deployment_web_def monitor_cpu_def)
  have h3: "tiny_Execute (tiny_Parse (Message monitor_cpu)) deployment_web =
      Return (''high cpu'', None)"
    by (simp add: tiny_Parse_def tiny_Execute_def deployment_web_def monitor_cpu_def)
  have h4: "tiny_Execute (tiny_Parse (EscalationMessage monitor_cpu)) deployment_web =
      Return (''still high'', None)"
    by (simp add: tiny_Parse_def tiny_Execute_def deployment_web_def monitor_cpu_def)
  show ?thesis
    using h1 h2 h3 h4
      C8_fields_rendered_independently [where Parse = tiny_Parse and Execute = tiny_Execute
        and monitor = monitor_cpu and deployment = deployment_web, OF h1 h2 h3 h4]
    by (simp add: log_if_def)
qed

text \<open>
  The loop of the handlers makes one round for each monitor in turn, up to and including
  the first whose rendering panics.
\<close>

lemma deployment_loop_rounds:
  "deployment_loop Parse Execute deployment monitors tr =
     (tr @ concat (map (round_events Parse Execute deployment)
                    (takeWhile (round_returns Parse Execute deployment) monitors)) @
        (case dropWhile (round_returns Parse Execute deployment) monitors of
           [] \<Rightarrow> []
         | monitor # rest \<Rightarrow> round_events Parse Execute deployment monitor),
      if list_all (round_returns Parse Execute deployment) monitors then Return ()
      else Panic)"
proof (induction monitors arbitrary: tr)
  case Nil
  show ?case by simp
next
  case (Cons m ms)
  obtain tr' r where a: "applyDeploymentTemplate Parse Execute deployment m = (tr', r)"
    by (cases "applyDeploymentTemplate Parse Execute deployment m")
  have ev: "round_events Parse Execute deployment m = Log LInfo ''looping monitor %s'' # tr'"
    by (simp add: round_events_def a)
  show ?case
  proof (cases r)
    case Panic
    then have "round_returns Parse Execute deployment m = False"
      by (simp add: round_returns_def a)
    then show ?thesis using a Panic ev by simp
  next
    case (Return m')
    then have "round_returns Parse Execute deployment m = True"
      by (simp add: round_returns_def a)
    then show ?thesis
      using a Return ev Cons.IH [of "tr @ Log LInfo ''looping monitor %s'' # tr'"] by simp
  qed
qed

text \<open>
  C4, as stated, fails: for the deletion of a deployment that has a matching monitor,
  the handler logs, renders the monitor and returns; its trace holds no client call.
\<close>

theorem C4_deletion_issues_no_delete_counterexample:
  "OnDeletedDeployment matching_cpu tiny_Parse tiny_Execute deployment_web =
     ([Log LInfo ''I finally made it to my deletion handler.'',
       Log LInfo ''looping monitor %s'',
       Log LError ''Error templating query: %s''],
      Return ()) \<and>
   filter is_client_call
     (fst (OnDeletedDeployment matching_cpu tiny_Parse tiny_Execute deployment_web)) = []"
  by (simp add: OnDeletedDeployment_def matching_cpu_def deployment_web_def
      applyDeploymentTemplate_def tiny_Parse_def tiny_Execute_def monitor_cpu_def log_if_def)

text \<open>
  C4, amended: the deletion handler logs its arrival, takes the monitors matched for the
  deployment's annotations and the type \<open>deployment\<close>, and renders each of them in
  turn against the deployment with \<open>applyDeploymentTemplate\<close>, stopping only at a
  rendering that panics; that is what the update handler does after the first log line,
  and the update handler does what the create handler does.  It issues no call to the
  backend.
\<close>

theorem C4_deletion_handler_as_update:
  "OnDeletedDeployment matching Parse Execute deployment =
     (Log LInfo ''I finally made it to my deletion handler.'' #
      concat (map (round_events Parse Execute deployment)
               (takeWhile (round_returns Parse Execute deployment)
                  (matching (dep_Annotations deployment) ''deployment''))) @
      (case dropWhile (round_returns Parse Execute deployment)
              (matching (dep_Annotations deployment) ''deployment'') of
         [] \<Rightarrow> []
       | monitor # rest \<Rightarrow> round_events Parse Execute deployment monitor),
      if list_all (round_returns Parse Execute deployment)
           (matching (dep_Annotations deployment) ''deployment'')
      then Return () else Panic) \<and>
   OnDeletedDeployment matching Parse Execute deployment =
     (Log LInfo ''I finally made it to my deletion handler.'' #
        fst (OnUpdatedDeployment matching Parse Execute deployment),
      snd (OnUpdatedDeployment matching Parse Execute deployment)) \<and>
   OnUpdatedDeployment matching Parse Execute deployment =
     OnCreatedDeployment matching Parse Execute deployment \<and>
   filter is_client_call (fst (OnDeletedDeployment matching Parse Execute deployment)) = []"
proof -
  have first: "OnDeletedDeployment matching Parse Execute deployment =
     (Log LInfo ''I finally made it to my deletion handler.'' #
      concat (map (round_events Parse Execute deployment)
               (takeWhile (round_returns Parse Execute deployment)
                  (matching (dep_Annotations deployment) ''deployment''))) @
      (case dropWhile (round_returns Parse Execute deployment)
              (matching (dep_Annotations deployment) ''deployment'') of
         [] \<Rightarrow> []
       | monitor # rest \<Rightarrow> round_events Parse Execute deployment monitor),
      if list_all (round_returns Parse Execute deployment)
           (matching (dep_Annotations deployment) ''deployment'')
      then Return () else Panic)"
    by (simp add: OnDeletedDeployment_def Let_def deployment_loop_rounds)
  have upd: "OnUpdatedDeployment matching Parse Execute deployment =
     (concat (map (round_events Parse Execute deployment)
               (takeWhile (round_returns Parse Execute deployment)
                  (matching (dep_Annotations deployment) ''deployment''))) @
      (case dropWhile (round_returns Parse Execute deployment)
              (matching (dep_Annotations deployment) ''deployment'') of
         [] \<Rightarrow> []
       | monitor # rest \<Rightarrow> round_events Parse Execute deployment monitor),
      if list_all (round_returns Parse Execute deployment)
           (matching (dep_Annotations deployment) ''deployment'')
      then Return () else Panic)"
    by (simp add: OnUpdatedDeployment_def Let_def deployment_loop_rounds)
  have second: "OnDeletedDeployment matching Parse Execute deployment =
     (Log LInfo ''I finally made it to my deletion handler.'' #
        fst (OnUpdatedDeployment matching Parse Execute deployment),
      snd (OnUpdatedDeployment matching Parse Execute deployment))"
    by (simp add: first upd)
  have third: "OnUpdatedDeployment matching Parse Execute deployment =
     OnCreatedDeployment matching Parse Execute deployment"
    by (simp add: OnUpdatedDeployment_def OnCreatedDeployment_def)
  have fourth: "filter is_client_call
      (fst (OnDeletedDeployment matching Parse Execute deployment)) = []"
    by (simp add: OnDeletedDeployment_def deployment_loop_no_call)
  from first second third fourth show ?thesis by blast
qed

end
